theory Spec2Isabelle
  imports Main
begin

section \<open>The books backend of fastapi-supabase (src/backend/app.py)\<close>

text \<open>
  The module is a request handler layer: five handlers (\<open>login\<close>, \<open>list_book\<close>,
  \<open>create_book\<close>, \<open>update_book\<close>, \<open>delete_book\<close>) that build queries against one
  remote table, \<open>books\<close>, and translate the response into a return value or an
  \<open>HTTPException\<close>. The handlers are embedded as functions that take the remote
  store as an explicit state and return the result together with the new state.
\<close>

subsection \<open>Values, dictionaries and exceptions\<close>

text \<open>
  JSON values as the handlers meet them: \<open>None\<close>, strings and integers. A Python
  \<open>dict\<close> with string keys is a map. The characters of a \<open>string\<close> stand for the
  code points of a Python \<open>str\<close>, which is what \<open>max_length\<close> counts.
\<close>

datatype jval = JNull | JStr string | JInt int

type_synonym dict = "string \<rightharpoonup> jval"

text \<open>
  \<open>HTTPException status detail\<close> is what the handlers raise.
  \<open>RequestValidationError\<close> is the framework's rejection (HTTP 422) of a body that
  does not validate as \<open>BookIn\<close>, with one (field, message) pair per failing field.
  \<open>APIError\<close> is an exception raised by the remote table client and
  \<open>AuthApiError\<close> one raised by the remote authentication client; no handler
  catches either, so they leave the handler as they are.
\<close>

datatype exn =
    HTTPException nat string
  | RequestValidationError "(string \<times> string) list"
  | APIError string
  | AuthApiError string

subsection \<open>The request models\<close>

text \<open>
  \<^verbatim>\<open>
  class BookIn(BaseModel):
      name: str = Field(..., max_length=100)
      description: Optional[str] = None
  \<close>
\<close>

record BookIn =
  name :: string
  description :: "string option"

definition validate_name :: "jval option \<Rightarrow> string + string" where
  "validate_name v =
     (case v of
        None \<Rightarrow> Inl ''Field required''
      | Some (JStr s) \<Rightarrow>
          if length s \<le> 100 then Inr s
          else Inl ''String should have at most 100 characters''
      | Some _ \<Rightarrow> Inl ''Input should be a valid string'')"

definition validate_description :: "jval option \<Rightarrow> string + string option" where
  "validate_description v =
     (case v of
        None \<Rightarrow> Inr None
      | Some JNull \<Rightarrow> Inr None
      | Some (JStr s) \<Rightarrow> Inr (Some s)
      | Some _ \<Rightarrow> Inl ''Input should be a valid string'')"

text \<open>
  Validation of a request body against \<open>BookIn\<close>: \<open>name\<close> is required, a string,
  and bounded by \<open>max_length=100\<close>; no \<open>min_length\<close> is declared. \<open>description\<close>
  is optional and defaults to \<open>None\<close>. Keys the model does not declare are ignored.
\<close>

definition BookIn_validate :: "dict \<Rightarrow> exn + BookIn" where
  "BookIn_validate body =
     (case (validate_name (body ''name''), validate_description (body ''description'')) of
        (Inr n, Inr d) \<Rightarrow> Inr \<lparr>name = n, description = d\<rparr>
      | (Inl e, Inr d) \<Rightarrow> Inl (RequestValidationError [(''name'', e)])
      | (Inr n, Inl e) \<Rightarrow> Inl (RequestValidationError [(''description'', e)])
      | (Inl e, Inl e') \<Rightarrow>
          Inl (RequestValidationError [(''name'', e), (''description'', e')]))"

text \<open>\<open>book.model_dump()\<close>: the two declared fields, and nothing else.\<close>

definition model_dump :: "BookIn \<Rightarrow> dict" where
  "model_dump book =
     [''name'' \<mapsto> JStr (name book),
      ''description'' \<mapsto> (case description book of None \<Rightarrow> JNull | Some d \<Rightarrow> JStr d)]"


subsection \<open>The authenticated user, UUIDs and the clock\<close>

text \<open>The user and session objects of the authentication service, as far as the
  handlers read them (\<open>current_user.id\<close>, \<open>resp.session.access_token\<close>).\<close>

record User =
  id_of :: string



text \<open>A \<open>UUID\<close> is a 128-bit integer; \<open>str(book_id)\<close> is its canonical form,
  32 lower-case hexadecimal digits grouped 8-4-4-4-12. \<open>hex w n\<close> is the lowest \<open>w\<close>
  hexadecimal digits of \<open>n\<close>.\<close>

datatype UUID = UUID nat

definition hex_digit :: "nat \<Rightarrow> char" where
  "hex_digit d = ''0123456789abcdef'' ! (d mod 16)"

fun hex :: "nat \<Rightarrow> nat \<Rightarrow> string" where
  "hex 0 n = []"
| "hex (Suc w) n = hex w (n div 16) @ [hex_digit n]"

definition str_uuid :: "UUID \<Rightarrow> string" where
  "str_uuid u =
     (case u of UUID n \<Rightarrow>
        let h = hex 32 n
        in take 8 h @ ''-'' @ take 4 (drop 8 h) @ ''-'' @ take 4 (drop 12 h) @ ''-'' @
           take 4 (drop 16 h) @ ''-'' @ drop 20 h)"

text \<open>
  \<open>datetime.now(timezone.utc)\<close> reads the clock; the reading is an argument of the
  handler that takes it. \<open>isoformat()\<close> of such a value is
  \<open>YYYY-MM-DDTHH:MM:SS[.ffffff]+00:00\<close>, the fraction left out when it is zero.
\<close>

record datetime =
  year :: nat
  month :: nat
  day :: nat
  hour :: nat
  minute :: nat
  second :: nat
  microsecond :: nat

definition dec_digit :: "nat \<Rightarrow> char" where
  "dec_digit d = ''0123456789'' ! (d mod 10)"

fun dec :: "nat \<Rightarrow> nat \<Rightarrow> string" where
  "dec 0 n = []"
| "dec (Suc w) n = dec w (n div 10) @ [dec_digit n]"

definition isoformat :: "datetime \<Rightarrow> string" where
  "isoformat dt =
     dec 4 (year dt) @ ''-'' @ dec 2 (month dt) @ ''-'' @ dec 2 (day dt) @ ''T'' @
     dec 2 (hour dt) @ '':'' @ dec 2 (minute dt) @ '':'' @ dec 2 (second dt) @
     (if microsecond dt = 0 then [] else ''.'' @ dec 6 (microsecond dt)) @ ''+00:00''"

text \<open>The field ranges that the \<open>datetime\<close> constructor enforces; a clock reading
  lies within them.\<close>

definition datetime_ok :: "datetime \<Rightarrow> bool" where
  "datetime_ok dt \<longleftrightarrow>
     1 \<le> year dt \<and> year dt \<le> 9999 \<and> 1 \<le> month dt \<and> month dt \<le> 12 \<and>
     1 \<le> day dt \<and> day dt \<le> 31 \<and> hour dt < 24 \<and> minute dt < 60 \<and> second dt < 60 \<and>
     microsecond dt < 1000000"

subsection \<open>The remote table service\<close>

text \<open>
  The handlers reach the store only through the query builder of the remote client:
  \<open>table\<close>, then one of \<open>select\<close>, \<open>insert\<close>, \<open>update\<close>, \<open>delete\<close>, then the
  modifiers \<open>eq\<close>, \<open>match\<close>, \<open>limit\<close>, \<open>offset\<close>, then \<open>execute\<close>. A built query is
  a record; each builder call returns the query with one more field set.
\<close>

datatype operation = Select string | Insert dict | Update dict | Delete

record request =
  tbl_name :: string
  operation :: operation
  filters :: "(string \<times> string) list"
  limit_n :: "int option"
  offset_n :: "int option"

definition table :: "string \<Rightarrow> string" where
  "table t = t"

definition select_q :: "string \<Rightarrow> string \<Rightarrow> request" where
  "select_q tbl cols =
     \<lparr>tbl_name = tbl, operation = Select cols, filters = [], limit_n = None, offset_n = None\<rparr>"

definition insert_q :: "string \<Rightarrow> dict \<Rightarrow> request" where
  "insert_q tbl payload =
     \<lparr>tbl_name = tbl, operation = Insert payload, filters = [], limit_n = None, offset_n = None\<rparr>"

definition update_q :: "string \<Rightarrow> dict \<Rightarrow> request" where
  "update_q tbl payload =
     \<lparr>tbl_name = tbl, operation = Update payload, filters = [], limit_n = None, offset_n = None\<rparr>"

definition delete_q :: "string \<Rightarrow> request" where
  "delete_q tbl =
     \<lparr>tbl_name = tbl, operation = Delete, filters = [], limit_n = None, offset_n = None\<rparr>"

definition eq_q :: "request \<Rightarrow> string \<Rightarrow> string \<Rightarrow> request" where
  "eq_q q column v = q\<lparr>filters := filters q @ [(column, v)]\<rparr>"

text \<open>\<open>match\<close> adds one equality filter per entry of its dictionary, in order.\<close>

definition match_q :: "request \<Rightarrow> (string \<times> string) list \<Rightarrow> request" where
  "match_q q kvs = foldl (\<lambda>q' (column, v). eq_q q' column v) q kvs"

definition limit_q :: "request \<Rightarrow> int \<Rightarrow> request" where
  "limit_q q n = q\<lparr>limit_n := Some n\<rparr>"

definition offset_q :: "request \<Rightarrow> int \<Rightarrow> request" where
  "offset_q q n = q\<lparr>offset_n := Some n\<rparr>"

record APIResponse =
  data :: "dict list"

text \<open>
  The remote store, as the handlers see it through the session client \<open>sp\<close>: the rows
  of the table \<open>books\<close>, the next identifier the store will assign, and the queries
  executed so far (oldest first).
\<close>

record remote =
  books :: "dict list"
  next_id :: nat
  calls :: "request list"

text \<open>A row passes the filters of a query when it holds the given string in every
  filtered column; a column that is absent or null passes no equality filter.\<close>

definition satisfies :: "(string \<times> string) list \<Rightarrow> dict \<Rightarrow> bool" where
  "satisfies fs row = list_all (\<lambda>(column, v). row column = Some (JStr v)) fs"

text \<open>\<open>select("*")\<close> returns whole rows, \<open>select(c)\<close> the column \<open>c\<close> of each row.\<close>

definition project :: "string \<Rightarrow> dict \<Rightarrow> dict" where
  "project cols row = (if cols = ''*'' then row else row |` {cols})"

text \<open>The store applies \<open>OFFSET\<close> and then \<open>LIMIT\<close>, and rejects a negative value
  of either.\<close>

definition window :: "int option \<Rightarrow> int option \<Rightarrow> dict list \<Rightarrow> exn + dict list" where
  "window l off rows =
     (if (case l of None \<Rightarrow> False | Some n \<Rightarrow> n < 0) then
        Inl (APIError ''LIMIT must not be negative'')
      else if (case off of None \<Rightarrow> False | Some k \<Rightarrow> k < 0) then
        Inl (APIError ''OFFSET must not be negative'')
      else
        let rows1 = (case off of None \<Rightarrow> rows | Some k \<Rightarrow> drop (nat k) rows)
        in Inr (case l of None \<Rightarrow> rows1 | Some n \<Rightarrow> take (nat n) rows1))"

text \<open>
  \<open>execute\<close>. The external service is not part of the repository; this is the
  behaviour of a plain table behind the query interface that the handlers use, with
  no row-level policy and no column default except the identifier the store assigns
  to an inserted row:
  \<^item> \<open>select\<close> returns the rows that pass the filters, windowed and projected;
  \<^item> \<open>insert\<close> stores the payload as a new row and returns that row;
  \<^item> \<open>update\<close> writes the payload's entries into every row that passes the filters
    and returns the rows written;
  \<^item> \<open>delete\<close> removes every row that passes the filters and returns the rows
    removed.
  Every executed query is recorded in \<open>calls\<close>.
\<close>

definition execute :: "request \<Rightarrow> remote \<Rightarrow> (exn + APIResponse) \<times> remote" where
  "execute q sp =
     (let sp1 = sp\<lparr>calls := calls sp @ [q]\<rparr> in
      if tbl_name q \<noteq> ''books'' then (Inl (APIError ''relation does not exist''), sp1)
      else
        case operation q of
          Select cols \<Rightarrow>
            (case window (limit_n q) (offset_n q) (filter (satisfies (filters q)) (books sp)) of
               Inl e \<Rightarrow> (Inl e, sp1)
             | Inr rows \<Rightarrow> (Inr \<lparr>data = map (project cols) rows\<rparr>, sp1))
        | Insert payload \<Rightarrow>
            (let row = (case payload ''id'' of
                          None \<Rightarrow> payload(''id'' \<mapsto> JStr (str_uuid (UUID (next_id sp))))
                        | Some _ \<Rightarrow> payload)
             in (Inr \<lparr>data = [row]\<rparr>,
                 sp1\<lparr>books := books sp @ [row], next_id := Suc (next_id sp)\<rparr>))
        | Update payload \<Rightarrow>
            (Inr \<lparr>data = map (\<lambda>row. row ++ payload) (filter (satisfies (filters q)) (books sp))\<rparr>,
             sp1\<lparr>books := map (\<lambda>row. if satisfies (filters q) row then row ++ payload else row)
                              (books sp)\<rparr>)
        | Delete \<Rightarrow>
            (Inr \<lparr>data = filter (satisfies (filters q)) (books sp)\<rparr>,
             sp1\<lparr>books := filter (\<lambda>row. \<not> satisfies (filters q) row) (books sp)\<rparr>))"

subsection \<open>The handlers\<close>


text \<open>
  \<^verbatim>\<open>
  tbl = sp.table("books")
  offset = (page - 1) * limit
  resp = await tbl.select("*").eq("user_id", current_user.id).limit(limit).offset(offset).execute()
  return resp.data
  \<close>
\<close>

definition list_book :: "remote \<Rightarrow> User \<Rightarrow> int \<Rightarrow> int \<Rightarrow> (exn + dict list) \<times> remote" where
  "list_book sp current_user page limit =
     (let tbl = table ''books'';
          offset = (page - 1) * limit
      in case execute (offset_q (limit_q (eq_q (select_q tbl ''*'') ''user_id'' (id_of current_user))
                                   limit) offset) sp of
           (Inl e, sp1) \<Rightarrow> (Inl e, sp1)
         | (Inr resp, sp1) \<Rightarrow> (Inr (data resp), sp1))"

text \<open>
  \<^verbatim>\<open>
  tbl = sp.table("books")
  resp = await tbl.select("name").eq("name", book.name).limit(1).execute()
  if resp and resp.data:
      raise HTTPException(400, "Book already exists")
  data = book.model_dump()
  data["user_id"] = current_user.id
  resp = await tbl.insert(book.model_dump()).execute()
  if resp and resp.data:
      return resp.data[0]
  raise HTTPException(400, "Something went wrong")
  \<close>
  A response object is truthy, so \<open>resp and resp.data\<close> is the test that the list
  \<open>resp.data\<close> is not empty. The dictionary \<open>data\<close> is built and then not used: the
  argument of \<open>insert\<close> is a second \<open>book.model_dump()\<close>.
\<close>

definition create_book :: "BookIn \<Rightarrow> remote \<Rightarrow> User \<Rightarrow> (exn + dict) \<times> remote" where
  "create_book book sp current_user =
     (let tbl = table ''books'' in
      case execute (limit_q (eq_q (select_q tbl ''name'') ''name'' (name book)) 1) sp of
        (Inl e, sp1) \<Rightarrow> (Inl e, sp1)
      | (Inr resp, sp1) \<Rightarrow>
          if data resp \<noteq> [] then (Inl (HTTPException 400 ''Book already exists''), sp1)
          else
            let data0 = model_dump book;
                data1 = data0(''user_id'' \<mapsto> JStr (id_of current_user))
            in case execute (insert_q tbl (model_dump book)) sp1 of
                 (Inl e, sp2) \<Rightarrow> (Inl e, sp2)
               | (Inr resp2, sp2) \<Rightarrow>
                   (case data resp2 of
                      row # _ \<Rightarrow> (Inr row, sp2)
                    | [] \<Rightarrow> (Inl (HTTPException 400 ''Something went wrong''), sp2)))"

text \<open>
  \<^verbatim>\<open>
  tbl = sp.table("books")
  resp = await tbl.select("name").eq("name", book.name).limit(1).execute()
  if resp and resp.data:
      raise HTTPException(400, "Book already exists")
  data = book.model_dump()
  data["updated_at"] = datetime.now(timezone.utc).isoformat()
  resp = await tbl.update(data).match({"id": str(book_id), "user_id": current_user.id}).execute()
  if resp and resp.data:
      return {}
  raise HTTPException(404, "Book not found")
  \<close>
  \<open>now\<close> is the value of \<open>datetime.now(timezone.utc)\<close> read by this call.
\<close>

definition update_book ::
  "UUID \<Rightarrow> BookIn \<Rightarrow> remote \<Rightarrow> User \<Rightarrow> datetime \<Rightarrow> (exn + dict) \<times> remote" where
  "update_book book_id book sp current_user now =
     (let tbl = table ''books'' in
      case execute (limit_q (eq_q (select_q tbl ''name'') ''name'' (name book)) 1) sp of
        (Inl e, sp1) \<Rightarrow> (Inl e, sp1)
      | (Inr resp, sp1) \<Rightarrow>
          if data resp \<noteq> [] then (Inl (HTTPException 400 ''Book already exists''), sp1)
          else
            let data0 = model_dump book;
                data1 = data0(''updated_at'' \<mapsto> JStr (isoformat now))
            in case execute (match_q (update_q tbl data1)
                               [(''id'', str_uuid book_id), (''user_id'', id_of current_user)]) sp1 of
                 (Inl e, sp2) \<Rightarrow> (Inl e, sp2)
               | (Inr resp2, sp2) \<Rightarrow>
                   if data resp2 \<noteq> [] then (Inr Map.empty, sp2)
                   else (Inl (HTTPException 404 ''Book not found''), sp2))"

text \<open>
  \<^verbatim>\<open>
  tbl = sp.table("books")
  resp = await tbl.delete().eq("id", str(book_id)).eq("user_id", current_user.id).execute()
  if resp and resp.data:
      return {}
  raise HTTPException(404, "Book not found")
  \<close>
\<close>

definition delete_book :: "UUID \<Rightarrow> remote \<Rightarrow> User \<Rightarrow> (exn + dict) \<times> remote" where
  "delete_book book_id sp current_user =
     (let tbl = table ''books'' in
      case execute (eq_q (eq_q (delete_q tbl) ''id'' (str_uuid book_id))
                      ''user_id'' (id_of current_user)) sp of
        (Inl e, sp1) \<Rightarrow> (Inl e, sp1)
      | (Inr resp, sp1) \<Rightarrow>
          if data resp \<noteq> [] then (Inr Map.empty, sp1)
          else (Inl (HTTPException 404 ''Book not found''), sp1))"

subsection \<open>The routes\<close>

text \<open>
  \<open>@app.post("/book")\<close> and \<open>@app.put("/book/{book_id}")\<close> declare the parameter
  \<open>book: BookIn\<close>: the framework validates the request body first and calls the
  handler only with a body that validated.
\<close>

definition post_book :: "dict \<Rightarrow> remote \<Rightarrow> User \<Rightarrow> (exn + dict) \<times> remote" where
  "post_book body sp current_user =
     (case BookIn_validate body of
        Inl e \<Rightarrow> (Inl e, sp)
      | Inr book \<Rightarrow> create_book book sp current_user)"

definition put_book ::
  "UUID \<Rightarrow> dict \<Rightarrow> remote \<Rightarrow> User \<Rightarrow> datetime \<Rightarrow> (exn + dict) \<times> remote" where
  "put_book book_id body sp current_user now =
     (case BookIn_validate body of
        Inl e \<Rightarrow> (Inl e, sp)
      | Inr book \<Rightarrow> update_book book_id book sp current_user now)"

subsection \<open>The guard query and example values\<close>

text \<open>The query that \<open>create_book\<close> and \<open>update_book\<close> issue first:
  \<open>tbl.select("name").eq("name", book.name).limit(1)\<close>.\<close>

definition name_guard :: "string \<Rightarrow> request" where
  "name_guard n =
     \<lparr>tbl_name = ''books'', operation = Select ''name'', filters = [(''name'', n)],
      limit_n = Some 1, offset_n = None\<rparr>"

text \<open>Two users, a book, a clock reading and small stores, for concrete runs.\<close>

definition U1 :: User where
  "U1 = \<lparr>id_of = ''U1''\<rparr>"

definition U2 :: User where
  "U2 = \<lparr>id_of = ''U2''\<rparr>"

definition dune :: BookIn where
  "dune = \<lparr>name = ''Dune'', description = Some ''sci-fi''\<rparr>"

definition empty_store :: remote where
  "empty_store = \<lparr>books = [], next_id = 0, calls = []\<rparr>"

definition dune_row :: dict where
  "dune_row = [''id'' \<mapsto> JStr (str_uuid (UUID 0)), ''name'' \<mapsto> JStr ''Dune'',
               ''description'' \<mapsto> JStr ''sci-fi'', ''user_id'' \<mapsto> JStr ''U1'']"

definition store1 :: remote where
  "store1 = \<lparr>books = [dune_row], next_id = 1, calls = []\<rparr>"

definition emma_row :: dict where
  "emma_row = [''id'' \<mapsto> JStr (str_uuid (UUID 1)), ''name'' \<mapsto> JStr ''Emma'',
               ''description'' \<mapsto> JNull, ''user_id'' \<mapsto> JStr ''U2'']"

definition ulysses_row :: dict where
  "ulysses_row = [''id'' \<mapsto> JStr (str_uuid (UUID 2)), ''name'' \<mapsto> JStr ''Ulysses'',
                  ''description'' \<mapsto> JNull, ''user_id'' \<mapsto> JStr ''U1'']"

definition store3 :: remote where
  "store3 = \<lparr>books = [dune_row, emma_row, ulysses_row], next_id = 3, calls = []\<rparr>"

definition noon :: datetime where
  "noon = \<lparr>year = 2024, month = 5, day = 17, hour = 12, minute = 0, second = 0,
           microsecond = 0\<rparr>"



text \<open>A second clock reading, with a fraction of a second.\<close>

definition later :: datetime where
  "later = \<lparr>year = 2024, month = 5, day = 17, hour = 12, minute = 0, second = 7,
            microsecond = 1500\<rparr>"

section \<open>What the handlers compute\<close>

subsection \<open>The queries built and their execution\<close>

lemma guard_query:
  "limit_q (eq_q (select_q ''books'' ''name'') ''name'' n) 1 = name_guard n"
  by (simp add: limit_q_def eq_q_def select_q_def name_guard_def)

lemma satisfies_one: "satisfies [(c, v)] = (\<lambda>row. row c = Some (JStr v))"
  by (rule ext) (simp add: satisfies_def)

lemma satisfies_two:
  "satisfies [(c, v), (c', v')] = (\<lambda>row. row c = Some (JStr v) \<and> row c' = Some (JStr v'))"
  by (rule ext) (simp add: satisfies_def)

lemma execute_guard:
  "execute (name_guard n) sp =
     (Inr \<lparr>data = map (project ''name'')
                    (take 1 (filter (\<lambda>row. row ''name'' = Some (JStr n)) (books sp)))\<rparr>,
      sp\<lparr>calls := calls sp @ [name_guard n]\<rparr>)"
  by (simp add: execute_def name_guard_def window_def satisfies_one Let_def)

lemma create_book_guard_hit:
  assumes "row \<in> set (books sp)" and "row ''name'' = Some (JStr (name book))"
  shows "create_book book sp current_user =
           (Inl (HTTPException 400 ''Book already exists''),
            sp\<lparr>calls := calls sp @ [name_guard (name book)]\<rparr>)"
  using assms
  by (auto simp add: create_book_def table_def guard_query execute_guard filter_empty_conv Let_def)

lemma update_book_guard_hit:
  assumes "row \<in> set (books sp)" and "row ''name'' = Some (JStr (name book))"
  shows "update_book book_id book sp current_user now =
           (Inl (HTTPException 400 ''Book already exists''),
            sp\<lparr>calls := calls sp @ [name_guard (name book)]\<rparr>)"
  using assms
  by (auto simp add: update_book_def table_def guard_query execute_guard filter_empty_conv Let_def)

lemma model_dump_no_id: "model_dump book ''id'' = None"
  by (simp add: model_dump_def)

lemma model_dump_no_user_id: "model_dump book ''user_id'' = None"
  by (simp add: model_dump_def)

lemma execute_insert:
  assumes "payload ''id'' = None"
  shows "execute (insert_q ''books'' payload) sp =
     (Inr \<lparr>data = [payload(''id'' \<mapsto> JStr (str_uuid (UUID (next_id sp))))]\<rparr>,
      sp\<lparr>books := books sp @ [payload(''id'' \<mapsto> JStr (str_uuid (UUID (next_id sp))))],
         next_id := Suc (next_id sp),
         calls := calls sp @ [insert_q ''books'' payload]\<rparr>)"
  using assms by (simp add: execute_def insert_q_def Let_def)

lemma execute_update:
  "execute \<lparr>tbl_name = ''books'', operation = Update payload,
            filters = [(''id'', i), (''user_id'', u)], limit_n = None, offset_n = None\<rparr> sp =
     (Inr \<lparr>data = map (\<lambda>row. row ++ payload)
                    (filter (\<lambda>row. row ''id'' = Some (JStr i) \<and> row ''user_id'' = Some (JStr u))
                       (books sp))\<rparr>,
      sp\<lparr>books := map (\<lambda>row. if row ''id'' = Some (JStr i) \<and> row ''user_id'' = Some (JStr u)
                              then row ++ payload else row) (books sp),
         calls := calls sp @
           [\<lparr>tbl_name = ''books'', operation = Update payload,
             filters = [(''id'', i), (''user_id'', u)], limit_n = None, offset_n = None\<rparr>]\<rparr>)"
  by (simp add: execute_def satisfies_two Let_def)

lemma execute_delete:
  "execute \<lparr>tbl_name = ''books'', operation = Delete,
            filters = [(''id'', i), (''user_id'', u)], limit_n = None, offset_n = None\<rparr> sp =
     (Inr \<lparr>data = filter (\<lambda>row. row ''id'' = Some (JStr i) \<and> row ''user_id'' = Some (JStr u))
                       (books sp)\<rparr>,
      sp\<lparr>books := filter (\<lambda>row. \<not> (row ''id'' = Some (JStr i) \<and> row ''user_id'' = Some (JStr u)))
                       (books sp),
         calls := calls sp @
           [\<lparr>tbl_name = ''books'', operation = Delete,
             filters = [(''id'', i), (''user_id'', u)], limit_n = None, offset_n = None\<rparr>]\<rparr>)"
  by (simp add: execute_def satisfies_two Let_def)

lemma create_book_guard_pass:
  assumes "\<forall>row\<in>set (books sp). row ''name'' \<noteq> Some (JStr (name book))"
  shows "create_book book sp current_user =
           (Inr ((model_dump book)(''id'' \<mapsto> JStr (str_uuid (UUID (next_id sp))))),
            sp\<lparr>books := books sp @ [(model_dump book)(''id'' \<mapsto> JStr (str_uuid (UUID (next_id sp))))],
               next_id := Suc (next_id sp),
               calls := calls sp @ [name_guard (name book), insert_q ''books'' (model_dump book)]\<rparr>)"
proof -
  have empty: "filter (\<lambda>row. row ''name'' = Some (JStr (name book))) (books sp) = []"
    using assms by (simp add: filter_empty_conv)
  show ?thesis
    by (simp add: create_book_def table_def guard_query execute_guard empty Let_def
        execute_insert model_dump_no_id)
qed

lemma update_query:
  "match_q (update_q ''books'' payload) [(''id'', i), (''user_id'', u)] =
     \<lparr>tbl_name = ''books'', operation = Update payload,
      filters = [(''id'', i), (''user_id'', u)], limit_n = None, offset_n = None\<rparr>"
  by (simp add: match_q_def update_q_def eq_q_def)

lemma delete_query:
  "eq_q (eq_q (delete_q ''books'') ''id'' i) ''user_id'' u =
     \<lparr>tbl_name = ''books'', operation = Delete,
      filters = [(''id'', i), (''user_id'', u)], limit_n = None, offset_n = None\<rparr>"
  by (simp add: delete_q_def eq_q_def)

lemma list_query:
  "offset_q (limit_q (eq_q (select_q ''books'' ''*'') ''user_id'' u) l) k =
     \<lparr>tbl_name = ''books'', operation = Select ''*'',
      filters = [(''user_id'', u)], limit_n = Some l, offset_n = Some k\<rparr>"
  by (simp add: offset_q_def limit_q_def select_q_def eq_q_def)

lemma update_book_guard_pass:
  assumes "\<forall>row\<in>set (books sp). row ''name'' \<noteq> Some (JStr (name book))"
  shows "update_book book_id book sp current_user now =
           (if \<exists>row\<in>set (books sp). row ''id'' = Some (JStr (str_uuid book_id)) \<and>
                                      row ''user_id'' = Some (JStr (id_of current_user))
            then Inr Map.empty else Inl (HTTPException 404 ''Book not found''),
            sp\<lparr>books := map (\<lambda>row. if row ''id'' = Some (JStr (str_uuid book_id)) \<and>
                                       row ''user_id'' = Some (JStr (id_of current_user))
                                    then row ++ (model_dump book)(''updated_at'' \<mapsto> JStr (isoformat now))
                                    else row) (books sp),
               calls := calls sp @
                 [name_guard (name book),
                  \<lparr>tbl_name = ''books'',
                   operation = Update ((model_dump book)(''updated_at'' \<mapsto> JStr (isoformat now))),
                   filters = [(''id'', str_uuid book_id), (''user_id'', id_of current_user)],
                   limit_n = None, offset_n = None\<rparr>]\<rparr>)"
proof -
  have empty: "filter (\<lambda>row. row ''name'' = Some (JStr (name book))) (books sp) = []"
    using assms by (simp add: filter_empty_conv)
  show ?thesis
    by (simp add: update_book_def table_def guard_query execute_guard empty Let_def update_query
        execute_update filter_empty_conv)
qed

lemma delete_book_eq:
  "delete_book book_id sp current_user =
           (if \<exists>row\<in>set (books sp). row ''id'' = Some (JStr (str_uuid book_id)) \<and>
                                      row ''user_id'' = Some (JStr (id_of current_user))
            then Inr Map.empty else Inl (HTTPException 404 ''Book not found''),
            sp\<lparr>books := filter (\<lambda>row. \<not> (row ''id'' = Some (JStr (str_uuid book_id)) \<and>
                                       row ''user_id'' = Some (JStr (id_of current_user))))
                                 (books sp),
               calls := calls sp @
                 [\<lparr>tbl_name = ''books'', operation = Delete,
                   filters = [(''id'', str_uuid book_id), (''user_id'', id_of current_user)],
                   limit_n = None, offset_n = None\<rparr>]\<rparr>)"
  by (simp add: delete_book_def table_def Let_def delete_query execute_delete filter_empty_conv)

lemma project_star: "map (project ''*'') rows = rows"
proof -
  have "project ''*'' = (\<lambda>row. row)"
    by (rule ext) (simp add: project_def)
  then show ?thesis by simp
qed

lemma list_book_eq:
  "list_book sp current_user page limit =
     (case window (Some limit) (Some ((page - 1) * limit))
             (filter (\<lambda>row. row ''user_id'' = Some (JStr (id_of current_user))) (books sp)) of
        Inl e \<Rightarrow> Inl e
      | Inr rows \<Rightarrow> Inr rows,
      sp\<lparr>calls := calls sp @
         [\<lparr>tbl_name = ''books'', operation = Select ''*'',
           filters = [(''user_id'', id_of current_user)],
           limit_n = Some limit, offset_n = Some ((page - 1) * limit)\<rparr>]\<rparr>)"
  by (simp add: list_book_def table_def Let_def list_query execute_def satisfies_one project_star
      split: sum.splits)

lemma window_subset: "window l k rows = Inr rows' \<Longrightarrow> set rows' \<subseteq> set rows"
  by (auto simp add: window_def Let_def split: if_splits option.splits
      dest: in_set_takeD in_set_dropD)

lemma length_dec: "length (dec w n) = w"
  by (induction w n rule: dec.induct) simp_all

subsection \<open>Validation, identifiers and timestamps\<close>

lemma validate_name_Inr:
  "validate_name v = Inr s \<longleftrightarrow> v = Some (JStr s) \<and> length s \<le> 100"
  by (auto simp add: validate_name_def split: option.splits jval.splits if_splits)

lemma BookIn_validate_Inr:
  "BookIn_validate body = Inr book \<longleftrightarrow>
     validate_name (body ''name'') = Inr (name book) \<and>
     validate_description (body ''description'') = Inr (description book)"
  by (cases "validate_name (body ''name'')"; cases "validate_description (body ''description'')")
     (auto simp add: BookIn_validate_def)

lemma BookIn_validate_long_name:
  assumes "body ''name'' = Some (JStr s)" and "100 < length s"
  shows "\<exists>errs. BookIn_validate body = Inl (RequestValidationError errs)"
  using assms
  by (cases "validate_description (body ''description'')")
     (simp_all add: BookIn_validate_def validate_name_def)

lemma str_uuid_0: "str_uuid (UUID 0) = ''00000000-0000-0000-0000-000000000000''"
  by code_simp

lemma str_uuid_1: "str_uuid (UUID 1) = ''00000000-0000-0000-0000-000000000001''"
  by code_simp

lemma str_uuid_2: "str_uuid (UUID 2) = ''00000000-0000-0000-0000-000000000002''"
  by code_simp

lemma isoformat_noon: "isoformat noon = ''2024-05-17T12:00:00+00:00''"
  by code_simp

text \<open>The digits of a timestamp, character by character.\<close>

lemma digit_table: "\<forall>k\<in>set [0..<10]. ''0123456789'' ! k = char_of (48 + k)"
  by code_simp

lemma dec_digit_char: "dec_digit d = char_of (48 + d mod 10)"
proof -
  have "d mod 10 \<in> set [0..<10]" by simp
  with digit_table show ?thesis
    unfolding dec_digit_def by blast
qed

lemma dec_numeral:
  "dec (numeral k) n = dec (pred_numeral k) (n div 10) @ [dec_digit n]"
proof -
  have "dec (Suc (pred_numeral k)) n = dec (pred_numeral k) (n div 10) @ [dec_digit n]"
    by simp
  then show ?thesis
    by (simp only: numeral_eq_Suc [symmetric])
qed

lemma dec_1: "dec 1 n = [dec_digit n]"
  by simp

lemma dec_2: "dec 2 n = [dec_digit (n div 10), dec_digit n]"
  by (simp add: dec_numeral dec_1)

lemma dec_4:
  "dec 4 n = [dec_digit (n div 1000), dec_digit (n div 100), dec_digit (n div 10), dec_digit n]"
  by (simp add: dec_numeral dec_1 div_mult2_eq [symmetric])

lemma dec_6:
  "dec 6 n = [dec_digit (n div 100000), dec_digit (n div 10000), dec_digit (n div 1000),
              dec_digit (n div 100), dec_digit (n div 10), dec_digit n]"
  by (simp add: dec_numeral dec_1 div_mult2_eq [symmetric])

lemma isoformat_digits:
  "isoformat now =
     (let D = (\<lambda>n::nat. char_of (48 + n mod 10)) in
      [D (year now div 1000), D (year now div 100), D (year now div 10), D (year now), CHR ''-'',
       D (month now div 10), D (month now), CHR ''-'',
       D (day now div 10), D (day now), CHR ''T'',
       D (hour now div 10), D (hour now), CHR '':'',
       D (minute now div 10), D (minute now), CHR '':'',
       D (second now div 10), D (second now)] @
      (if microsecond now = 0 then []
       else [CHR ''.'', D (microsecond now div 100000), D (microsecond now div 10000),
             D (microsecond now div 1000), D (microsecond now div 100),
             D (microsecond now div 10), D (microsecond now)]) @
      ''+00:00'')"
  by (simp add: isoformat_def dec_2 dec_4 dec_6 dec_digit_char Let_def)

lemma isoformat_later: "isoformat later = ''2024-05-17T12:00:07.001500+00:00''"
  by code_simp

text \<open>A timestamp determines the clock reading it was computed from.\<close>

lemma digit_char_eq:
  "char_of (48 + x mod 10) = (char_of (48 + y mod 10 :: nat) :: char) \<longleftrightarrow> x mod 10 = y mod (10::nat)"
proof -
  have "(48 + x mod 10) mod 256 = 48 + x mod 10" and "(48 + y mod 10) mod 256 = 48 + y mod 10"
    by (simp_all add: mod_less)
  then show ?thesis by simp
qed

lemma split10: "n div 10 = m div 10 \<Longrightarrow> n mod 10 = m mod (10::nat) \<Longrightarrow> n = m"
  by (metis div_mult_mod_eq)

lemma dec_digit_inj: "dec_digit n = dec_digit m \<longleftrightarrow> n mod 10 = m mod 10"
  unfolding dec_digit_char by (rule digit_char_eq)

lemma dec_inj: "n < 10 ^ w \<Longrightarrow> m < 10 ^ w \<Longrightarrow> dec w n = dec w m \<Longrightarrow> n = m"
proof (induction w arbitrary: n m)
  case 0
  then show ?case by simp
next
  case (Suc w)
  from Suc.prems(1) have n: "n div 10 < 10 ^ w"
    by (simp add: less_mult_imp_div_less mult.commute)
  from Suc.prems(2) have m: "m div 10 < 10 ^ w"
    by (simp add: less_mult_imp_div_less mult.commute)
  from Suc.prems(3) have "dec w (n div 10) = dec w (m div 10)" and "dec_digit n = dec_digit m"
    by simp_all
  then have "n div 10 = m div 10" and "n mod 10 = m mod 10"
    using Suc.IH [OF n m] by (simp_all add: dec_digit_inj)
  then show ?case by (rule split10)
qed

lemma timestamp_parts:
  assumes "length y1 = length y2" and "length m1 = length m2" and "length d1 = length d2"
    and "length h1 = length h2" and "length i1 = length i2" and "length s1 = length s2"
    and "y1 @ ''-'' @ m1 @ ''-'' @ d1 @ ''T'' @ h1 @ '':'' @ i1 @ '':'' @ s1 @ f1 @ ''+00:00'' =
         y2 @ ''-'' @ m2 @ ''-'' @ d2 @ ''T'' @ h2 @ '':'' @ i2 @ '':'' @ s2 @ f2 @ ''+00:00''"
  shows "y1 = y2 \<and> m1 = m2 \<and> d1 = d2 \<and> h1 = h2 \<and> i1 = i2 \<and> s1 = s2 \<and> f1 = f2"
  using assms by simp

lemma isoformat_inj:
  assumes a: "datetime_ok a" and b: "datetime_ok b" and eq: "isoformat a = isoformat b"
  shows "a = b"
proof -
  let ?f = "\<lambda>dt. if microsecond dt = 0 then [] else ''.'' @ dec 6 (microsecond dt)"
  have "dec 4 (year a) @ ''-'' @ dec 2 (month a) @ ''-'' @ dec 2 (day a) @ ''T'' @
        dec 2 (hour a) @ '':'' @ dec 2 (minute a) @ '':'' @ dec 2 (second a) @ ?f a @ ''+00:00'' =
        dec 4 (year b) @ ''-'' @ dec 2 (month b) @ ''-'' @ dec 2 (day b) @ ''T'' @
        dec 2 (hour b) @ '':'' @ dec 2 (minute b) @ '':'' @ dec 2 (second b) @ ?f b @ ''+00:00''"
    using eq unfolding isoformat_def .
  then have parts: "dec 4 (year a) = dec 4 (year b) \<and> dec 2 (month a) = dec 2 (month b) \<and>
      dec 2 (day a) = dec 2 (day b) \<and> dec 2 (hour a) = dec 2 (hour b) \<and>
      dec 2 (minute a) = dec 2 (minute b) \<and> dec 2 (second a) = dec 2 (second b) \<and> ?f a = ?f b"
    by (intro timestamp_parts) (simp_all only: length_dec)
  have ya: "year a < 10 ^ 4" and yb: "year b < 10 ^ 4"
    and ma: "month a < 10 ^ 2" and mb: "month b < 10 ^ 2"
    and da: "day a < 10 ^ 2" and db: "day b < 10 ^ 2"
    and ha: "hour a < 10 ^ 2" and hb: "hour b < 10 ^ 2"
    and ia: "minute a < 10 ^ 2" and ib: "minute b < 10 ^ 2"
    and sa: "second a < 10 ^ 2" and sb: "second b < 10 ^ 2"
    and ua: "microsecond a < 10 ^ 6" and ub: "microsecond b < 10 ^ 6"
    using a b by (simp_all add: datetime_ok_def)
  have "year a = year b"
    using parts by (intro dec_inj [OF ya yb]) simp
  moreover have "month a = month b"
    using parts by (intro dec_inj [OF ma mb]) simp
  moreover have "day a = day b"
    using parts by (intro dec_inj [OF da db]) simp
  moreover have "hour a = hour b"
    using parts by (intro dec_inj [OF ha hb]) simp
  moreover have "minute a = minute b"
    using parts by (intro dec_inj [OF ia ib]) simp
  moreover have "second a = second b"
    using parts by (intro dec_inj [OF sa sb]) simp
  moreover have "microsecond a = microsecond b"
  proof (cases "microsecond a = 0")
    case True
    with parts show ?thesis
      by (cases "microsecond b = 0") simp_all
  next
    case False
    with parts have "microsecond b \<noteq> 0"
      by (cases "microsecond b = 0") simp_all
    with parts False have "dec 6 (microsecond a) = dec 6 (microsecond b)"
      by simp
    then show ?thesis
      by (rule dec_inj [OF ua ub])
  qed
  ultimately show ?thesis
    by (intro datetime.equality) simp_all
qed

section \<open>The claims\<close>

subsection \<open>Listing\<close>

lemma store3_rows_of_U1:
  "filter (\<lambda>row. row ''user_id'' = Some (JStr (id_of U1))) (books store3) = [dune_row, ulysses_row]"
  by (simp add: store3_def dune_row_def emma_row_def ulysses_row_def U1_def)

lemma store3_rows_of_U2:
  "filter (\<lambda>row. row ''user_id'' = Some (JStr (id_of U2))) (books store3) = [emma_row]"
  by (simp add: store3_def dune_row_def emma_row_def ulysses_row_def U2_def)

text \<open>
  Claim C2. Whatever the page and the limit, every row that \<open>list_book\<close> returns is a
  stored row whose \<open>user_id\<close> is the caller's identifier; a stored row with any other
  \<open>user_id\<close> (another user's book) is never among the rows returned.
\<close>

theorem list_book_returns_only_callers_rows:
  assumes "list_book sp current_user page limit = (Inr rows, sp')"
  shows "(\<forall>row\<in>set rows. row \<in> set (books sp) \<and>
            row ''user_id'' = Some (JStr (id_of current_user))) \<and>
         (\<forall>row\<in>set (books sp). row ''user_id'' \<noteq> Some (JStr (id_of current_user)) \<longrightarrow>
            row \<notin> set rows)"
proof -
  from assms have
    "window (Some limit) (Some ((page - 1) * limit))
       (filter (\<lambda>row. row ''user_id'' = Some (JStr (id_of current_user))) (books sp)) = Inr rows"
    by (simp add: list_book_eq split: sum.splits)
  then have "set rows \<subseteq>
      set (filter (\<lambda>row. row ''user_id'' = Some (JStr (id_of current_user))) (books sp))"
    by (rule window_subset)
  then show ?thesis by auto
qed

theorem list_book_returns_only_callers_rows_witness:
  "fst (list_book store3 U2 1 10) = Inr [emma_row] \<and>
   emma_row \<in> set (books store3) \<and>
   emma_row ''user_id'' = Some (JStr (id_of U2)) \<and>
   dune_row \<in> set (books store3) \<and>
   dune_row ''user_id'' = Some (JStr (id_of U1)) \<and>
   dune_row \<notin> set [emma_row]"
proof -
  have run: "list_book store3 U2 1 10 = (Inr [emma_row], snd (list_book store3 U2 1 10))"
    by (simp add: list_book_eq store3_rows_of_U2 window_def)
  have own: "dune_row ''user_id'' = Some (JStr (id_of U1)) \<and>
             dune_row ''user_id'' \<noteq> Some (JStr (id_of U2)) \<and> dune_row \<in> set (books store3)"
    by (simp add: dune_row_def U1_def U2_def store3_def)
  show ?thesis
    using list_book_returns_only_callers_rows [OF run] run own
    by (metis fst_conv list.set_intros(1))
qed

text \<open>
  Claim C8. For every integer page and limit, with no check on their sign,
  \<open>list_book\<close> executes exactly one query: the select of all columns of \<open>books\<close>
  filtered by \<open>user_id = current_user.id\<close>, with that limit and the offset
  \<open>(page - 1) * limit\<close>; it returns the response's rows as they are (or the remote
  failure), and when neither value is negative those rows are the caller's rows after
  the offset, up to the limit.
\<close>

theorem list_book_issues_one_scoped_select:
  "(let q = \<lparr>tbl_name = ''books'', operation = Select ''*'',
             filters = [(''user_id'', id_of current_user)],
             limit_n = Some limit, offset_n = Some ((page - 1) * limit)\<rparr>
    in list_book sp current_user page limit =
         (case execute q sp of
            (Inl e, sp1) \<Rightarrow> (Inl e, sp1)
          | (Inr resp, sp1) \<Rightarrow> (Inr (data resp), sp1)) \<and>
       snd (list_book sp current_user page limit) = sp\<lparr>calls := calls sp @ [q]\<rparr>) \<and>
   (0 \<le> limit \<and> 0 \<le> (page - 1) * limit \<longrightarrow>
      fst (list_book sp current_user page limit) =
        Inr (take (nat limit) (drop (nat ((page - 1) * limit))
               (filter (\<lambda>row. row ''user_id'' = Some (JStr (id_of current_user))) (books sp)))))"
proof -
  have "list_book sp current_user page limit =
         (case execute \<lparr>tbl_name = ''books'', operation = Select ''*'',
             filters = [(''user_id'', id_of current_user)],
             limit_n = Some limit, offset_n = Some ((page - 1) * limit)\<rparr> sp of
            (Inl e, sp1) \<Rightarrow> (Inl e, sp1)
          | (Inr resp, sp1) \<Rightarrow> (Inr (data resp), sp1))"
    by (simp add: list_book_def table_def Let_def list_query)
  moreover have "snd (list_book sp current_user page limit) =
      sp\<lparr>calls := calls sp @ [\<lparr>tbl_name = ''books'', operation = Select ''*'',
             filters = [(''user_id'', id_of current_user)],
             limit_n = Some limit, offset_n = Some ((page - 1) * limit)\<rparr>]\<rparr>"
    by (simp add: list_book_eq)
  moreover have "0 \<le> limit \<and> 0 \<le> (page - 1) * limit \<longrightarrow>
      fst (list_book sp current_user page limit) =
        Inr (take (nat limit) (drop (nat ((page - 1) * limit))
               (filter (\<lambda>row. row ''user_id'' = Some (JStr (id_of current_user))) (books sp))))"
    by (simp add: list_book_eq window_def)
  ultimately show ?thesis
    by (simp add: Let_def)
qed

theorem list_book_issues_one_scoped_select_witness:
  "fst (list_book store3 U1 2 1) = Inr [ulysses_row] \<and>
   snd (list_book store3 U1 2 1) =
     store3\<lparr>calls := [\<lparr>tbl_name = ''books'', operation = Select ''*'',
                        filters = [(''user_id'', ''U1'')],
                        limit_n = Some 1, offset_n = Some 1\<rparr>]\<rparr> \<and>
   snd (list_book store3 U1 0 10) =
     store3\<lparr>calls := [\<lparr>tbl_name = ''books'', operation = Select ''*'',
                        filters = [(''user_id'', ''U1'')],
                        limit_n = Some 10, offset_n = Some (- 10)\<rparr>]\<rparr>"
proof -
  have cs: "calls store3 = []" and u: "id_of U1 = ''U1''"
    by (simp_all add: store3_def U1_def)
  note page2 = list_book_issues_one_scoped_select [of U1 1 2 store3, unfolded Let_def]
  note page0 = list_book_issues_one_scoped_select [of U1 10 0 store3, unfolded Let_def]
  from page2 have "0 \<le> (1::int) \<and> 0 \<le> ((2::int) - 1) * 1 \<longrightarrow>
      fst (list_book store3 U1 2 1) =
        Inr (take (nat 1) (drop (nat ((2 - 1) * 1))
               (filter (\<lambda>row. row ''user_id'' = Some (JStr (id_of U1))) (books store3))))"
    by (rule conjunct2)
  then have rows: "fst (list_book store3 U1 2 1) = Inr [ulysses_row]"
    by (simp add: store3_rows_of_U1)
  from page2 have "snd (list_book store3 U1 2 1) =
      store3\<lparr>calls := calls store3 @ [\<lparr>tbl_name = ''books'', operation = Select ''*'',
                        filters = [(''user_id'', id_of U1)],
                        limit_n = Some 1, offset_n = Some ((2 - 1) * 1)\<rparr>]\<rparr>"
    by (elim conjE)
  then have call2: "snd (list_book store3 U1 2 1) =
     store3\<lparr>calls := [\<lparr>tbl_name = ''books'', operation = Select ''*'',
                        filters = [(''user_id'', ''U1'')],
                        limit_n = Some 1, offset_n = Some 1\<rparr>]\<rparr>"
    by (simp add: cs u)
  from page0 have "snd (list_book store3 U1 0 10) =
      store3\<lparr>calls := calls store3 @ [\<lparr>tbl_name = ''books'', operation = Select ''*'',
                        filters = [(''user_id'', id_of U1)],
                        limit_n = Some 10, offset_n = Some ((0 - 1) * 10)\<rparr>]\<rparr>"
    by (elim conjE)
  then have call0: "snd (list_book store3 U1 0 10) =
     store3\<lparr>calls := [\<lparr>tbl_name = ''books'', operation = Select ''*'',
                        filters = [(''user_id'', ''U1'')],
                        limit_n = Some 10, offset_n = Some (- 10)\<rparr>]\<rparr>"
    by (simp add: cs u)
  from rows call2 call0 show ?thesis
    by (intro conjI)
qed

subsection \<open>The duplicate-name guard\<close>

text \<open>
  Claim C3. When some row of the table carries the requested name, whoever owns that
  row and whoever calls, \<open>create_book\<close> and \<open>update_book\<close> both fail with
  \<open>HTTPException(400, "Book already exists")\<close>, and the only query executed is the
  guard's select: no insert and no update is issued.
\<close>

theorem duplicate_name_rejected_for_any_owner:
  assumes "row \<in> set (books sp)" and "row ''name'' = Some (JStr (name book))"
  shows "create_book book sp current_user =
           (Inl (HTTPException 400 ''Book already exists''),
            sp\<lparr>calls := calls sp @ [name_guard (name book)]\<rparr>) \<and>
         update_book book_id book sp current_user now =
           (Inl (HTTPException 400 ''Book already exists''),
            sp\<lparr>calls := calls sp @ [name_guard (name book)]\<rparr>)"
  using assms create_book_guard_hit update_book_guard_hit by blast

theorem duplicate_name_rejected_for_any_owner_witness:
  "dune_row \<in> set (books store1) \<and>
   dune_row ''name'' = Some (JStr (name dune)) \<and>
   dune_row ''user_id'' = Some (JStr (id_of U1)) \<and>
   id_of U2 \<noteq> id_of U1 \<and>
   create_book dune store1 U2 =
     (Inl (HTTPException 400 ''Book already exists''),
      \<lparr>books = [dune_row], next_id = 1, calls = [name_guard ''Dune'']\<rparr>) \<and>
   update_book (UUID 0) dune store1 U2 noon =
     (Inl (HTTPException 400 ''Book already exists''),
      \<lparr>books = [dune_row], next_id = 1, calls = [name_guard ''Dune'']\<rparr>)"
proof -
  have h1: "dune_row \<in> set (books store1)"
    by (simp add: store1_def)
  have h2: "dune_row ''name'' = Some (JStr (name dune))"
    by (simp add: dune_row_def dune_def)
  have h3: "dune_row ''user_id'' = Some (JStr (id_of U1)) \<and> id_of U2 \<noteq> id_of U1"
    by (simp add: dune_row_def U1_def U2_def)
  have h4: "store1\<lparr>calls := calls store1 @ [name_guard (name dune)]\<rparr> =
              \<lparr>books = [dune_row], next_id = 1, calls = [name_guard ''Dune'']\<rparr>"
    by (simp add: store1_def dune_def)
  show ?thesis
    using duplicate_name_rejected_for_any_owner [OF h1 h2, of U2 "UUID 0" noon] h1 h2 h3 h4
    by simp
qed

text \<open>
  Claim C9. Whenever \<open>create_book\<close> or \<open>update_book\<close> fails with
  \<open>HTTPException(400, "Book already exists")\<close>, the rows of the table and the
  identifier counter are as before the call, and the call has executed the guard's
  select and nothing else.
\<close>

theorem duplicate_name_leaves_store_unchanged:
  "(create_book book sp current_user = (Inl (HTTPException 400 ''Book already exists''), sp') \<longrightarrow>
      books sp' = books sp \<and> next_id sp' = next_id sp \<and>
      calls sp' = calls sp @ [name_guard (name book)]) \<and>
   (update_book book_id book sp current_user now =
      (Inl (HTTPException 400 ''Book already exists''), sp') \<longrightarrow>
      books sp' = books sp \<and> next_id sp' = next_id sp \<and>
      calls sp' = calls sp @ [name_guard (name book)])"
proof (cases "\<exists>row\<in>set (books sp). row ''name'' = Some (JStr (name book))")
  case True
  then obtain row where "row \<in> set (books sp)" and "row ''name'' = Some (JStr (name book))"
    by blast
  then show ?thesis
    by (auto simp add: create_book_guard_hit update_book_guard_hit)
next
  case False
  then have pass: "\<forall>row\<in>set (books sp). row ''name'' \<noteq> Some (JStr (name book))"
    by blast
  show ?thesis
    by (simp add: create_book_guard_pass [OF pass] update_book_guard_pass [OF pass])
qed

theorem duplicate_name_leaves_store_unchanged_witness:
  "create_book dune store1 U1 =
     (Inl (HTTPException 400 ''Book already exists''),
      store1\<lparr>calls := [name_guard ''Dune'']\<rparr>) \<and>
   update_book (UUID 0) dune store1 U1 noon =
     (Inl (HTTPException 400 ''Book already exists''),
      store1\<lparr>calls := [name_guard ''Dune'']\<rparr>) \<and>
   books (store1\<lparr>calls := [name_guard ''Dune'']\<rparr>) = books store1 \<and>
   next_id (store1\<lparr>calls := [name_guard ''Dune'']\<rparr>) = next_id store1 \<and>
   calls (store1\<lparr>calls := [name_guard ''Dune'']\<rparr>) = calls store1 @ [name_guard (name dune)]"
proof -
  have mem: "dune_row \<in> set (books store1)"
    by (simp add: store1_def)
  have nm: "dune_row ''name'' = Some (JStr (name dune))"
    by (simp add: dune_row_def dune_def)
  have cs: "calls store1 @ [name_guard (name dune)] = [name_guard ''Dune'']"
    by (simp add: store1_def dune_def)
  have c: "create_book dune store1 U1 =
     (Inl (HTTPException 400 ''Book already exists''), store1\<lparr>calls := [name_guard ''Dune'']\<rparr>)"
    using create_book_guard_hit [OF mem nm, of U1] cs by simp
  have u: "update_book (UUID 0) dune store1 U1 noon =
     (Inl (HTTPException 400 ''Book already exists''), store1\<lparr>calls := [name_guard ''Dune'']\<rparr>)"
    using update_book_guard_hit [OF mem nm, of "UUID 0" U1 noon] cs by simp
  show ?thesis
    using duplicate_name_leaves_store_unchanged
      [of dune store1 U1 "store1\<lparr>calls := [name_guard ''Dune'']\<rparr>" "UUID 0" noon] c u
    by simp
qed

text \<open>
  Claim C10. An \<open>update_book\<close> call on a book the caller owns that keeps the book's
  current name fails with \<open>HTTPException(400, "Book already exists")\<close>: the guard
  finds the book's own row. Conversely, whenever \<open>update_book\<close> succeeds, no row of
  the table carried the new name before the call.
\<close>

theorem update_keeping_name_rejected:
  "(row \<in> set (books sp) \<and> row ''id'' = Some (JStr (str_uuid book_id)) \<and>
    row ''user_id'' = Some (JStr (id_of current_user)) \<and>
    row ''name'' = Some (JStr (name book)) \<longrightarrow>
      fst (update_book book_id book sp current_user now) =
        Inl (HTTPException 400 ''Book already exists'')) \<and>
   (fst (update_book book_id book sp current_user now) = Inr r \<longrightarrow>
      (\<forall>row'\<in>set (books sp). row' ''name'' \<noteq> Some (JStr (name book))))"
proof (cases "\<exists>row'\<in>set (books sp). row' ''name'' = Some (JStr (name book))")
  case True
  then obtain row' where "row' \<in> set (books sp)" and "row' ''name'' = Some (JStr (name book))"
    by blast
  then show ?thesis
    by (simp add: update_book_guard_hit)
next
  case False
  then show ?thesis by blast
qed

theorem update_keeping_name_rejected_witness:
  "dune_row \<in> set (books store1) \<and> dune_row ''id'' = Some (JStr (str_uuid (UUID 0))) \<and>
   dune_row ''user_id'' = Some (JStr (id_of U1)) \<and>
   dune_row ''name'' = Some (JStr (name (dune\<lparr>description := Some ''a novel''\<rparr>))) \<and>
   fst (update_book (UUID 0) (dune\<lparr>description := Some ''a novel''\<rparr>) store1 U1 noon) =
     Inl (HTTPException 400 ''Book already exists'') \<and>
   fst (update_book (UUID 0) (dune\<lparr>name := ''Dune2''\<rparr>) store1 U1 noon) = Inr Map.empty \<and>
   dune_row ''name'' \<noteq> Some (JStr (name (dune\<lparr>name := ''Dune2''\<rparr>)))"
proof -
  have h: "dune_row \<in> set (books store1) \<and> dune_row ''id'' = Some (JStr (str_uuid (UUID 0))) \<and>
     dune_row ''user_id'' = Some (JStr (id_of U1)) \<and>
     dune_row ''name'' = Some (JStr (name (dune\<lparr>description := Some ''a novel''\<rparr>)))"
    by (simp add: store1_def dune_row_def U1_def dune_def)
  have pass: "\<forall>row\<in>set (books store1). row ''name'' \<noteq> Some (JStr (name (dune\<lparr>name := ''Dune2''\<rparr>)))"
    by (simp add: store1_def dune_row_def)
  have ok: "fst (update_book (UUID 0) (dune\<lparr>name := ''Dune2''\<rparr>) store1 U1 noon) = Inr Map.empty"
    by (simp add: update_book_guard_pass [OF pass]) (simp add: store1_def dune_row_def U1_def)
  show ?thesis
    using update_keeping_name_rejected
        [of dune_row store1 "UUID 0" U1 "dune\<lparr>description := Some ''a novel''\<rparr>" noon Map.empty]
      update_keeping_name_rejected
        [of dune_row store1 "UUID 0" U1 "dune\<lparr>name := ''Dune2''\<rparr>" noon Map.empty]
      h ok
    by (simp add: store1_def)
qed

subsection \<open>Login\<close>




subsection \<open>Validation of the request body\<close>

text \<open>
  The empty name. \<open>BookIn\<close> bounds the length of \<open>name\<close> from above only, so a body
  whose name is the empty string validates, and \<open>create_book\<close> runs on it: the guard's
  select and the insert are both executed.
\<close>

theorem empty_name_is_accepted:
  "BookIn_validate [''name'' \<mapsto> JStr ''''] = Inr \<lparr>name = '''', description = None\<rparr> \<and>
   calls (snd (post_book [''name'' \<mapsto> JStr ''''] empty_store U1)) =
     [name_guard '''', insert_q ''books'' (model_dump \<lparr>name = '''', description = None\<rparr>)] \<and>
   length (books (snd (post_book [''name'' \<mapsto> JStr ''''] empty_store U1))) = 1"
proof -
  have v: "BookIn_validate [''name'' \<mapsto> JStr ''''] = Inr \<lparr>name = '''', description = None\<rparr>"
    by (simp add: BookIn_validate_def validate_name_def validate_description_def)
  have pass: "\<forall>row\<in>set (books empty_store).
      row ''name'' \<noteq> Some (JStr (name \<lparr>name = '''', description = None\<rparr>))"
    by (simp add: empty_store_def)
  show ?thesis
    by (simp add: v post_book_def create_book_guard_pass [OF pass]) (simp add: empty_store_def)
qed

text \<open>
  Claim C5, as the code has it. The validation accepts the \<open>name\<close> field exactly when
  it is a string of at most 100 characters, the empty string included; a body that
  validates has such a name, and the handler then runs on it; a body whose name is
  longer than 100 characters is rejected with a validation error before the handler
  body runs, for \<open>create_book\<close> and for \<open>update_book\<close>, and the store is untouched.
\<close>

theorem name_accepted_iff_at_most_100:
  "(validate_name (body ''name'') = Inr s \<longleftrightarrow> body ''name'' = Some (JStr s) \<and> length s \<le> 100) \<and>
   (BookIn_validate body = Inr book \<longrightarrow>
      body ''name'' = Some (JStr (name book)) \<and> length (name book) \<le> 100) \<and>
   (body ''name'' = Some (JStr s) \<and> length s \<le> 100 \<and>
    validate_description (body ''description'') = Inr d \<longrightarrow>
      post_book body sp current_user = create_book \<lparr>name = s, description = d\<rparr> sp current_user \<and>
      put_book book_id body sp current_user now =
        update_book book_id \<lparr>name = s, description = d\<rparr> sp current_user now) \<and>
   (body ''name'' = Some (JStr s) \<and> 100 < length s \<longrightarrow>
      (\<exists>errs. post_book body sp current_user = (Inl (RequestValidationError errs), sp) \<and>
              put_book book_id body sp current_user now = (Inl (RequestValidationError errs), sp)))"
proof (intro conjI impI)
  show "validate_name (body ''name'') = Inr s \<longleftrightarrow> body ''name'' = Some (JStr s) \<and> length s \<le> 100"
    by (rule validate_name_Inr)
next
  assume "BookIn_validate body = Inr book"
  then have "validate_name (body ''name'') = Inr (name book)"
    by (simp add: BookIn_validate_Inr)
  then show "body ''name'' = Some (JStr (name book))" and "length (name book) \<le> 100"
    by (simp_all add: validate_name_Inr)
next
  assume a: "body ''name'' = Some (JStr s) \<and> length s \<le> 100 \<and>
    validate_description (body ''description'') = Inr d"
  then have v: "BookIn_validate body = Inr \<lparr>name = s, description = d\<rparr>"
    by (simp add: BookIn_validate_Inr validate_name_Inr)
  show "post_book body sp current_user = create_book \<lparr>name = s, description = d\<rparr> sp current_user"
    by (simp add: post_book_def v)
  show "put_book book_id body sp current_user now =
        update_book book_id \<lparr>name = s, description = d\<rparr> sp current_user now"
    by (simp add: put_book_def v)
next
  assume "body ''name'' = Some (JStr s) \<and> 100 < length s"
  then obtain errs where "BookIn_validate body = Inl (RequestValidationError errs)"
    using BookIn_validate_long_name by blast
  then show "\<exists>errs. post_book body sp current_user = (Inl (RequestValidationError errs), sp) \<and>
              put_book book_id body sp current_user now = (Inl (RequestValidationError errs), sp)"
    by (simp add: post_book_def put_book_def)
qed

theorem name_accepted_iff_at_most_100_witness:
  "length (replicate 101 CHR ''a'') = 101 \<and>
   post_book [''name'' \<mapsto> JStr (replicate 101 CHR ''a'')] store1 U1 =
     (Inl (RequestValidationError [(''name'', ''String should have at most 100 characters'')]), store1) \<and>
   put_book (UUID 0) [''name'' \<mapsto> JStr (replicate 101 CHR ''a'')] store1 U1 noon =
     (Inl (RequestValidationError [(''name'', ''String should have at most 100 characters'')]), store1) \<and>
   post_book [''name'' \<mapsto> JStr ''''] store1 U1 =
     create_book \<lparr>name = '''', description = None\<rparr> store1 U1 \<and>
   post_book [''name'' \<mapsto> JStr (replicate 100 CHR ''a'')] store1 U1 =
     create_book \<lparr>name = replicate 100 CHR ''a'', description = None\<rparr> store1 U1"
proof -
  have long: "post_book [''name'' \<mapsto> JStr (replicate 101 CHR ''a'')] store1 U1 =
     (Inl (RequestValidationError [(''name'', ''String should have at most 100 characters'')]), store1) \<and>
   put_book (UUID 0) [''name'' \<mapsto> JStr (replicate 101 CHR ''a'')] store1 U1 noon =
     (Inl (RequestValidationError [(''name'', ''String should have at most 100 characters'')]), store1)"
    using name_accepted_iff_at_most_100
      [of "[''name'' \<mapsto> JStr (replicate 101 CHR ''a'')]" "replicate 101 CHR ''a''" _ _ store1 U1 "UUID 0" noon]
    by (simp add: post_book_def put_book_def BookIn_validate_def validate_name_def
        validate_description_def)
  have short: "post_book [''name'' \<mapsto> JStr ''''] store1 U1 =
     create_book \<lparr>name = '''', description = None\<rparr> store1 U1"
    using name_accepted_iff_at_most_100
      [of "[''name'' \<mapsto> JStr '''']" "''''" _ None store1 U1 "UUID 0" noon]
    by (simp add: validate_description_def)
  have full: "post_book [''name'' \<mapsto> JStr (replicate 100 CHR ''a'')] store1 U1 =
     create_book \<lparr>name = replicate 100 CHR ''a'', description = None\<rparr> store1 U1"
    using name_accepted_iff_at_most_100
      [of "[''name'' \<mapsto> JStr (replicate 100 CHR ''a'')]" "replicate 100 CHR ''a''" _ None store1 U1 "UUID 0" noon]
    by (simp add: validate_description_def)
  from long short full show ?thesis by simp
qed

subsection \<open>Creation\<close>

text \<open>
  Claim C1, against the code. When the guard passes, the row that \<open>create_book\<close> sends
  to \<open>insert\<close> is \<open>book.model_dump()\<close>, which has no \<open>user_id\<close> entry: the dictionary
  that received \<open>current_user.id\<close> is not the one inserted. The handler returns the
  first created row, which is the payload with the identifier the store assigned, and
  that row has no \<open>user_id\<close> either.
\<close>

theorem create_book_inserts_dump_without_user_id:
  assumes "\<forall>row\<in>set (books sp). row ''name'' \<noteq> Some (JStr (name book))"
  shows "create_book book sp current_user =
           (Inr ((model_dump book)(''id'' \<mapsto> JStr (str_uuid (UUID (next_id sp))))),
            sp\<lparr>books := books sp @ [(model_dump book)(''id'' \<mapsto> JStr (str_uuid (UUID (next_id sp))))],
               next_id := Suc (next_id sp),
               calls := calls sp @
                 [name_guard (name book),
                  \<lparr>tbl_name = ''books'', operation = Insert (model_dump book), filters = [],
                   limit_n = None, offset_n = None\<rparr>]\<rparr>) \<and>
         model_dump book ''user_id'' = None \<and>
         ((model_dump book)(''id'' \<mapsto> JStr (str_uuid (UUID (next_id sp))))) ''user_id'' = None"
  using create_book_guard_pass [OF assms, of current_user]
  by (simp add: insert_q_def model_dump_no_user_id)

theorem create_book_inserts_dump_without_user_id_witness:
  "fst (create_book dune empty_store U1) =
     Inr ((model_dump dune)(''id'' \<mapsto> JStr ''00000000-0000-0000-0000-000000000000'')) \<and>
   ((model_dump dune)(''id'' \<mapsto> JStr ''00000000-0000-0000-0000-000000000000'')) ''user_id'' = None \<and>
   ((model_dump dune)(''id'' \<mapsto> JStr ''00000000-0000-0000-0000-000000000000'')) ''user_id'' \<noteq>
     Some (JStr (id_of U1)) \<and>
   calls (snd (create_book dune empty_store U1)) =
     [name_guard ''Dune'',
      \<lparr>tbl_name = ''books'', operation = Insert (model_dump dune), filters = [],
       limit_n = None, offset_n = None\<rparr>] \<and>
   model_dump dune ''user_id'' = None \<and>
   fst (list_book (snd (create_book dune empty_store U1)) U1 1 10) = Inr []"
proof -
  have pass: "\<forall>row\<in>set (books empty_store). row ''name'' \<noteq> Some (JStr (name dune))"
    by (simp add: empty_store_def)
  note run = create_book_inserts_dump_without_user_id [OF pass, of U1]
  have nid: "next_id empty_store = 0" and cs: "calls empty_store = []"
    and bs: "books empty_store = []" and nm: "name dune = ''Dune''"
    by (simp_all add: empty_store_def dune_def)
  from run have res: "fst (create_book dune empty_store U1) =
     Inr ((model_dump dune)(''id'' \<mapsto> JStr ''00000000-0000-0000-0000-000000000000''))"
    by (simp add: nid str_uuid_0)
  from run have log: "calls (snd (create_book dune empty_store U1)) =
     [name_guard ''Dune'',
      \<lparr>tbl_name = ''books'', operation = Insert (model_dump dune), filters = [],
       limit_n = None, offset_n = None\<rparr>]"
    by (simp add: cs nm)
  from run have stored: "books (snd (create_book dune empty_store U1)) =
      [(model_dump dune)(''id'' \<mapsto> JStr ''00000000-0000-0000-0000-000000000000'')]"
    by (simp add: nid bs str_uuid_0)
  have nouid: "((model_dump dune)(''id'' \<mapsto> JStr ''00000000-0000-0000-0000-000000000000''))
      ''user_id'' = None"
    by (simp add: model_dump_def)
  have lst: "fst (list_book (snd (create_book dune empty_store U1)) U1 1 10) = Inr []"
    by (simp add: list_book_eq stored model_dump_no_user_id window_def)
  have differs: "((model_dump dune)(''id'' \<mapsto> JStr ''00000000-0000-0000-0000-000000000000''))
      ''user_id'' \<noteq> Some (JStr (id_of U1))"
    unfolding nouid by simp
  from res nouid differs log model_dump_no_user_id [of dune] lst show ?thesis
    by (intro conjI)
qed

subsection \<open>Update and deletion\<close>

text \<open>
  Claim C7. When the guard passes, \<open>update_book\<close> executes one update whose filters are
  \<open>id = str(book_id)\<close> and \<open>user_id = current_user.id\<close>: the rows that satisfy both
  receive the payload and every other row is left as it was. The payload holds
  \<open>name\<close>, \<open>description\<close> and \<open>updated_at\<close>. The timestamp is computed from the UTC
  clock reading taken by this call and from nothing else: it is the four digits of the
  year, the two digits of month, day, hour, minute and second in the ISO-8601 layout
  \<open>YYYY-MM-DDTHH:MM:SS\<close>, then the six digits of the microseconds after a point
  unless they are zero, then the UTC offset \<open>+00:00\<close>; and no other clock reading has
  this timestamp. The call succeeds exactly when some row satisfied both filters.
\<close>

theorem update_book_writes_owned_row_only:
  assumes "\<forall>row\<in>set (books sp). row ''name'' \<noteq> Some (JStr (name book))"
  shows "(let D = (\<lambda>n::nat. char_of (48 + n mod 10));
              stamp =
                [D (year now div 1000), D (year now div 100), D (year now div 10), D (year now),
                 CHR ''-'', D (month now div 10), D (month now),
                 CHR ''-'', D (day now div 10), D (day now),
                 CHR ''T'', D (hour now div 10), D (hour now),
                 CHR '':'', D (minute now div 10), D (minute now),
                 CHR '':'', D (second now div 10), D (second now)] @
                (if microsecond now = 0 then []
                 else [CHR ''.'', D (microsecond now div 100000), D (microsecond now div 10000),
                       D (microsecond now div 1000), D (microsecond now div 100),
                       D (microsecond now div 10), D (microsecond now)]) @
                ''+00:00'';
              payload = [''name'' \<mapsto> JStr (name book),
                         ''description'' \<mapsto> (case description book of None \<Rightarrow> JNull
                                                 | Some d \<Rightarrow> JStr d),
                         ''updated_at'' \<mapsto> JStr stamp]
          in snd (update_book book_id book sp current_user now) =
               sp\<lparr>books := map (\<lambda>row. if row ''id'' = Some (JStr (str_uuid book_id)) \<and>
                                          row ''user_id'' = Some (JStr (id_of current_user))
                                       then row ++ payload else row) (books sp),
                  calls := calls sp @
                    [name_guard (name book),
                     \<lparr>tbl_name = ''books'', operation = Update payload,
                      filters = [(''id'', str_uuid book_id), (''user_id'', id_of current_user)],
                      limit_n = None, offset_n = None\<rparr>]\<rparr> \<and>
             fst (update_book book_id book sp current_user now) =
               (if \<exists>row\<in>set (books sp). row ''id'' = Some (JStr (str_uuid book_id)) \<and>
                                          row ''user_id'' = Some (JStr (id_of current_user))
                then Inr Map.empty else Inl (HTTPException 404 ''Book not found'')) \<and>
             (\<forall>t. datetime_ok now \<and> datetime_ok t \<and> isoformat t = stamp \<longrightarrow> t = now))"
proof -
  have payload: "(model_dump book)(''updated_at'' \<mapsto> JStr (isoformat now)) =
      [''name'' \<mapsto> JStr (name book),
       ''description'' \<mapsto> (case description book of None \<Rightarrow> JNull | Some d \<Rightarrow> JStr d),
       ''updated_at'' \<mapsto> JStr (isoformat now)]"
    by (simp add: model_dump_def)
  have inj: "\<forall>t. datetime_ok now \<and> datetime_ok t \<and> isoformat t = isoformat now \<longrightarrow> t = now"
    using isoformat_inj by blast
  show ?thesis
    unfolding Let_def isoformat_digits [of now, unfolded Let_def, symmetric]
      update_book_guard_pass [OF assms] payload
    using inj by simp
qed

theorem update_book_writes_owned_row_only_witness:
  "snd (update_book (UUID 2) \<lparr>name = ''Ulysses 2'', description = None\<rparr> store3 U1 noon) =
     \<lparr>books = [dune_row, emma_row,
               ulysses_row ++ [''name'' \<mapsto> JStr ''Ulysses 2'', ''description'' \<mapsto> JNull,
                               ''updated_at'' \<mapsto> JStr ''2024-05-17T12:00:00+00:00'']],
      next_id = 3,
      calls = [name_guard ''Ulysses 2'',
               \<lparr>tbl_name = ''books'',
                operation = Update [''name'' \<mapsto> JStr ''Ulysses 2'', ''description'' \<mapsto> JNull,
                                    ''updated_at'' \<mapsto> JStr ''2024-05-17T12:00:00+00:00''],
                filters = [(''id'', str_uuid (UUID 2)), (''user_id'', ''U1'')],
                limit_n = None, offset_n = None\<rparr>]\<rparr> \<and>
   fst (update_book (UUID 2) \<lparr>name = ''Ulysses 2'', description = None\<rparr> store3 U1 noon) =
     Inr Map.empty \<and>
   books (snd (update_book (UUID 2) \<lparr>name = ''Ulysses 2'', description = None\<rparr> store3 U1 later)) =
     [dune_row, emma_row,
      ulysses_row ++ [''name'' \<mapsto> JStr ''Ulysses 2'', ''description'' \<mapsto> JNull,
                      ''updated_at'' \<mapsto> JStr ''2024-05-17T12:00:07.001500+00:00'']] \<and>
   datetime_ok noon \<and> datetime_ok later \<and> noon \<noteq> later"
proof -
  have pass: "\<forall>row\<in>set (books store3).
      row ''name'' \<noteq> Some (JStr (name \<lparr>name = ''Ulysses 2'', description = None\<rparr>))"
    by (simp add: store3_def dune_row_def emma_row_def ulysses_row_def)
  note run = update_book_writes_owned_row_only
    [OF pass, where book_id = "UUID 2" and current_user = U1 and now = noon, unfolded Let_def,
     unfolded isoformat_digits [of noon, unfolded Let_def, symmetric] isoformat_noon]
  note run' = update_book_writes_owned_row_only
    [OF pass, where book_id = "UUID 2" and current_user = U1 and now = later, unfolded Let_def,
     unfolded isoformat_digits [of later, unfolded Let_def, symmetric] isoformat_later]
  have rows: "map (\<lambda>row. if row ''id'' = Some (JStr (str_uuid (UUID 2))) \<and>
                            row ''user_id'' = Some (JStr (id_of U1))
                         then row ++ p else row) (books store3) =
              [dune_row, emma_row, ulysses_row ++ p]" for p
    by (simp add: store3_def dune_row_def emma_row_def ulysses_row_def U1_def
        str_uuid_0 str_uuid_1 str_uuid_2)
  have owned: "\<exists>row\<in>set (books store3). row ''id'' = Some (JStr (str_uuid (UUID 2))) \<and>
                  row ''user_id'' = Some (JStr (id_of U1))"
    by (simp add: store3_def ulysses_row_def U1_def)
  from run have one: "snd (update_book (UUID 2) \<lparr>name = ''Ulysses 2'', description = None\<rparr> store3 U1 noon) =
     \<lparr>books = [dune_row, emma_row,
               ulysses_row ++ [''name'' \<mapsto> JStr ''Ulysses 2'', ''description'' \<mapsto> JNull,
                               ''updated_at'' \<mapsto> JStr ''2024-05-17T12:00:00+00:00'']],
      next_id = 3,
      calls = [name_guard ''Ulysses 2'',
               \<lparr>tbl_name = ''books'',
                operation = Update [''name'' \<mapsto> JStr ''Ulysses 2'', ''description'' \<mapsto> JNull,
                                    ''updated_at'' \<mapsto> JStr ''2024-05-17T12:00:00+00:00''],
                filters = [(''id'', str_uuid (UUID 2)), (''user_id'', ''U1'')],
                limit_n = None, offset_n = None\<rparr>]\<rparr>"
    by (simp add: rows) (simp add: store3_def U1_def)
  from run owned
  have two: "fst (update_book (UUID 2) \<lparr>name = ''Ulysses 2'', description = None\<rparr> store3 U1 noon) =
     Inr Map.empty"
    by simp
  from run' have three:
    "books (snd (update_book (UUID 2) \<lparr>name = ''Ulysses 2'', description = None\<rparr> store3 U1 later)) =
     [dune_row, emma_row,
      ulysses_row ++ [''name'' \<mapsto> JStr ''Ulysses 2'', ''description'' \<mapsto> JNull,
                      ''updated_at'' \<mapsto> JStr ''2024-05-17T12:00:07.001500+00:00'']]"
    by (simp add: rows)
  have ok: "datetime_ok noon" "datetime_ok later" "noon \<noteq> later"
    by (simp_all add: datetime_ok_def noon_def later_def)
  from one two three ok show ?thesis
    by (intro conjI)
qed

text \<open>
  A book of another user and a name that is taken. The row exists and belongs to
  \<open>U1\<close>; \<open>U2\<close> asks to update it under a name that some row carries. The guard runs
  first, so the answer is \<open>HTTPException(400, "Book already exists")\<close> and not 404; the
  same request against a store without the row is answered 404.
\<close>

theorem update_of_foreign_book_with_taken_name:
  "dune_row \<in> set (books store1) \<and>
   dune_row ''id'' = Some (JStr (str_uuid (UUID 0))) \<and>
   dune_row ''user_id'' = Some (JStr (id_of U1)) \<and>
   id_of U2 \<noteq> id_of U1 \<and>
   fst (update_book (UUID 0) dune store1 U2 noon) =
     Inl (HTTPException 400 ''Book already exists'') \<and>
   fst (update_book (UUID 0) dune store1 U2 noon) \<noteq>
     Inl (HTTPException 404 ''Book not found'') \<and>
   fst (update_book (UUID 0) dune empty_store U2 noon) =
     Inl (HTTPException 404 ''Book not found'')"
proof -
  have mem: "dune_row \<in> set (books store1)"
    by (simp add: store1_def)
  have nm: "dune_row ''name'' = Some (JStr (name dune))"
    by (simp add: dune_row_def dune_def)
  have own: "dune_row ''id'' = Some (JStr (str_uuid (UUID 0))) \<and>
             dune_row ''user_id'' = Some (JStr (id_of U1)) \<and> id_of U2 \<noteq> id_of U1"
    by (simp add: dune_row_def U1_def U2_def)
  have hit: "fst (update_book (UUID 0) dune store1 U2 noon) =
      Inl (HTTPException 400 ''Book already exists'')"
    by (simp add: update_book_guard_hit [OF mem nm])
  have pass: "\<forall>row\<in>set (books empty_store). row ''name'' \<noteq> Some (JStr (name dune))"
    by (simp add: empty_store_def)
  have miss: "fst (update_book (UUID 0) dune empty_store U2 noon) =
      Inl (HTTPException 404 ''Book not found'')"
    by (simp add: update_book_guard_pass [OF pass]) (simp add: empty_store_def)
  from mem own hit miss show ?thesis by simp
qed

text \<open>
  Claim C4, as the code has it. When no row has both the given identifier and the
  caller as its owner (the row belongs to someone else, or there is no such row: the
  condition and the answer are the same), \<open>delete_book\<close> fails with
  \<open>HTTPException(404, "Book not found")\<close> and removes nothing, and \<open>update_book\<close>, when
  the request passes the duplicate-name guard, fails with the same exception and
  writes nothing.
\<close>

theorem not_owned_book_is_not_found:
  assumes "\<forall>row\<in>set (books sp). \<not> (row ''id'' = Some (JStr (str_uuid book_id)) \<and>
                                     row ''user_id'' = Some (JStr (id_of current_user)))"
  shows "delete_book book_id sp current_user =
           (Inl (HTTPException 404 ''Book not found''),
            sp\<lparr>calls := calls sp @
               [\<lparr>tbl_name = ''books'', operation = Delete,
                 filters = [(''id'', str_uuid book_id), (''user_id'', id_of current_user)],
                 limit_n = None, offset_n = None\<rparr>]\<rparr>) \<and>
         ((\<forall>row\<in>set (books sp). row ''name'' \<noteq> Some (JStr (name book))) \<longrightarrow>
            fst (update_book book_id book sp current_user now) =
              Inl (HTTPException 404 ''Book not found'') \<and>
            books (snd (update_book book_id book sp current_user now)) = books sp)"
proof (intro conjI impI)
  have keep: "filter (\<lambda>row. \<not> (row ''id'' = Some (JStr (str_uuid book_id)) \<and>
                               row ''user_id'' = Some (JStr (id_of current_user)))) (books sp) =
              books sp"
    using assms by (simp add: filter_id_conv)
  have none: "\<not> (\<exists>row\<in>set (books sp). row ''id'' = Some (JStr (str_uuid book_id)) \<and>
                                       row ''user_id'' = Some (JStr (id_of current_user)))"
    using assms by blast
  show "delete_book book_id sp current_user =
           (Inl (HTTPException 404 ''Book not found''),
            sp\<lparr>calls := calls sp @
               [\<lparr>tbl_name = ''books'', operation = Delete,
                 filters = [(''id'', str_uuid book_id), (''user_id'', id_of current_user)],
                 limit_n = None, offset_n = None\<rparr>]\<rparr>)"
    unfolding delete_book_eq keep using none by simp
  assume pass: "\<forall>row\<in>set (books sp). row ''name'' \<noteq> Some (JStr (name book))"
  show "fst (update_book book_id book sp current_user now) =
              Inl (HTTPException 404 ''Book not found'')"
    unfolding update_book_guard_pass [OF pass] using none by simp
  have same: "map (\<lambda>row. if row ''id'' = Some (JStr (str_uuid book_id)) \<and>
                            row ''user_id'' = Some (JStr (id_of current_user))
                         then row ++ p else row) (books sp) = books sp" for p
    using assms by (intro map_idI) auto
  show "books (snd (update_book book_id book sp current_user now)) = books sp"
    unfolding update_book_guard_pass [OF pass] by (simp add: same)
qed

theorem not_owned_book_is_not_found_witness:
  "dune_row \<in> set (books store1) \<and>
   dune_row ''id'' = Some (JStr (str_uuid (UUID 0))) \<and>
   dune_row ''user_id'' = Some (JStr (id_of U1)) \<and>
   id_of U2 \<noteq> id_of U1 \<and>
   delete_book (UUID 0) store1 U2 =
     (Inl (HTTPException 404 ''Book not found''),
      \<lparr>books = [dune_row], next_id = 1,
       calls = [\<lparr>tbl_name = ''books'', operation = Delete,
                 filters = [(''id'', str_uuid (UUID 0)), (''user_id'', ''U2'')],
                 limit_n = None, offset_n = None\<rparr>]\<rparr>) \<and>
   fst (update_book (UUID 0) \<lparr>name = ''Dune2'', description = None\<rparr> store1 U2 noon) =
     Inl (HTTPException 404 ''Book not found'') \<and>
   books (snd (update_book (UUID 0) \<lparr>name = ''Dune2'', description = None\<rparr> store1 U2 noon)) =
     [dune_row] \<and>
   delete_book (UUID 0) empty_store U2 =
     (Inl (HTTPException 404 ''Book not found''),
      \<lparr>books = [], next_id = 0,
       calls = [\<lparr>tbl_name = ''books'', operation = Delete,
                 filters = [(''id'', str_uuid (UUID 0)), (''user_id'', ''U2'')],
                 limit_n = None, offset_n = None\<rparr>]\<rparr>)"
proof -
  have own: "dune_row \<in> set (books store1) \<and>
     dune_row ''id'' = Some (JStr (str_uuid (UUID 0))) \<and>
     dune_row ''user_id'' = Some (JStr (id_of U1)) \<and> id_of U2 \<noteq> id_of U1"
    by (simp add: store1_def dune_row_def U1_def U2_def)
  have foreign: "\<forall>row\<in>set (books store1). \<not> (row ''id'' = Some (JStr (str_uuid (UUID 0))) \<and>
                                     row ''user_id'' = Some (JStr (id_of U2)))"
    by (simp add: store1_def dune_row_def U2_def)
  have missing: "\<forall>row\<in>set (books empty_store). \<not> (row ''id'' = Some (JStr (str_uuid (UUID 0))) \<and>
                                     row ''user_id'' = Some (JStr (id_of U2)))"
    by (simp add: empty_store_def)
  have pass: "\<forall>row\<in>set (books store1).
      row ''name'' \<noteq> Some (JStr (name \<lparr>name = ''Dune2'', description = None\<rparr>))"
    by (simp add: store1_def dune_row_def)
  note a = not_owned_book_is_not_found
    [OF foreign, where book = "\<lparr>name = ''Dune2'', description = None\<rparr>" and now = noon]
  note b = not_owned_book_is_not_found
    [OF missing, where book = "\<lparr>name = ''Dune2'', description = None\<rparr>" and now = noon]
  from a b pass own show ?thesis
    by (simp add: store1_def empty_store_def U2_def)
qed

end
